theory Spec2Isabelle
  imports
    Main
    "HOL-Library.Char_ord"
    "HOL-Library.List_Lexorder"
    "HOL-Library.Product_Lexorder"
    "HOL-Library.Multiset"
    "HOL-Library.Word"
begin

section \<open>The resource model of \<open>ff/serving/client/resources.py\<close>\<close>

text \<open>
  The module declares the resources of a feature store as dataclasses, collects them in
  a \<open>ResourceState\<close> and replays them against a gRPC stub. The embedding follows the
  module top to bottom. A Python \<open>str\<close> is a \<open>string\<close>, whose characters are the code
  points 0 to 255, compared by code point as Python compares them; a Python \<open>int\<close> is an
  \<open>int\<close>; \<open>bytes\<close> is a list of 8-bit words. Every dataclass is a record whose fields
  carry the class as a prefix, because several classes share the field names \<open>name\<close>,
  \<open>variant\<close>, \<open>password\<close> and so on. An attribute or method that a class does not have is
  an \<open>AttributeError\<close> carrying the class and the attribute.
\<close>

subsection \<open>Exceptions\<close>

text \<open>
  The status codes of a failed RPC are those of \<open>grpc.StatusCode\<close> other than \<open>OK\<close>; the
  module itself never looks at them.
\<close>

datatype StatusCode =
    CANCELLED | UNKNOWN | INVALID_ARGUMENT | DEADLINE_EXCEEDED | NOT_FOUND
  | ALREADY_EXISTS | PERMISSION_DENIED | RESOURCE_EXHAUSTED | FAILED_PRECONDITION
  | ABORTED | OUT_OF_RANGE | UNIMPLEMENTED | INTERNAL | UNAVAILABLE | DATA_LOSS
  | UNAUTHENTICATED

text \<open>
  \<open>InactiveRpcError\<close> is \<open>grpc._channel._InactiveRpcError\<close>, the exception a unary call of
  a stub raises when the call ends with a status other than \<open>OK\<close>. \<open>StubException\<close> is any
  exception of another class that a call of the stub raises.
\<close>

datatype error =
    ValueError string
  | AttributeError string string
  | KeyError string
  | ResourceRedefinedError string
  | InactiveRpcError StatusCode
  | StubException string

subsection \<open>Name variants\<close>

type_synonym NameVariant = "string \<times> string"

definition valid_name_variant :: "NameVariant \<Rightarrow> bool" where
  "valid_name_variant nvar = (fst nvar \<noteq> [] \<and> snd nvar \<noteq> [])"

subsection \<open>Provider configurations\<close>

record RedisConfig =
  redis_host :: string
  redis_port :: int
  redis_password :: string
  redis_db :: int

record SnowflakeConfig =
  snowflake_account :: string
  snowflake_database :: string
  snowflake_organization :: string
  snowflake_username :: string
  snowflake_password :: string
  snowflake_schema :: string

record PostgresConfig =
  postgres_host :: string
  postgres_port :: int
  postgres_database :: string
  postgres_user :: string
  postgres_password :: string

datatype Config =
    Redis RedisConfig
  | Snowflake SnowflakeConfig
  | Postgres PostgresConfig

fun config_class :: "Config \<Rightarrow> string" where
  "config_class (Redis c) = ''RedisConfig''"
| "config_class (Snowflake c) = ''SnowflakeConfig''"
| "config_class (Postgres c) = ''PostgresConfig''"

fun config_software :: "Config \<Rightarrow> string" where
  "config_software (Redis c) = ''redis''"
| "config_software (Snowflake c) = ''Snowflake''"
| "config_software (Postgres c) = ''postgres''"

text \<open>Only \<open>SnowflakeConfig\<close> defines \<open>type\<close>.\<close>

fun config_type :: "Config \<Rightarrow> error + string" where
  "config_type (Snowflake c) = Inr ''SNOWFLAKE_OFFLINE''"
| "config_type c = Inl (AttributeError (config_class c) ''type'')"

subsection \<open>Resources\<close>

record Provider =
  provider_name :: string
  provider_function :: string
  provider_config :: Config
  provider_description :: string
  provider_team :: string

text \<open>\<open>Provider.__post_init__\<close> stores the software tag of the configuration.\<close>

definition provider_software :: "Provider \<Rightarrow> string" where
  "provider_software p = config_software (provider_config p)"

record User =
  user_name :: string

record SQLTable =
  sqltable_name :: string

type_synonym Location = SQLTable

record PrimaryData =
  primarydata_location :: Location

record SQLTransformation =
  sqltransformation_query :: string

text \<open>
  A source definition is a \<open>PrimaryData\<close> or a \<open>Transformation\<close>. The class
  \<open>Transformation\<close> is empty and \<open>SQLTransformation\<close> is its one subclass, so a
  \<open>Transformation\<close> is either an \<open>SQLTransformation\<close> or an instance of the bare base class.
\<close>

datatype SourceDefinition =
    DefPrimaryData PrimaryData
  | DefSQLTransformation SQLTransformation
  | DefTransformation

record Source =
  source_name :: string
  source_variant :: string
  source_definition :: SourceDefinition
  source_owner :: string
  source_provider :: string
  source_description :: string

record Entity =
  entity_name :: string
  entity_description :: string

record ResourceColumnMapping =
  mapping_entity :: string
  mapping_value :: string
  mapping_timestamp :: string

type_synonym ResourceLocation = ResourceColumnMapping

record Feature =
  feature_name :: string
  feature_variant :: string
  feature_value_type :: string
  feature_entity :: string
  feature_owner :: string
  feature_provider :: string
  feature_description :: string
  feature_location :: ResourceLocation

record Label =
  label_name :: string
  label_variant :: string
  label_value_type :: string
  label_entity :: string
  label_owner :: string
  label_description :: string
  label_location :: ResourceLocation

record TrainingSet =
  trainingset_name :: string
  trainingset_variant :: string
  trainingset_owner :: string
  trainingset_label :: NameVariant
  trainingset_features :: "NameVariant list"
  trainingset_description :: string

text \<open>
  The dataclass constructor of \<open>TrainingSet\<close> followed by its \<open>__post_init__\<close>: the three
  checks in the order of the source, the loop over the features stopping at the first
  invalid one.
\<close>

fun check_features :: "NameVariant list \<Rightarrow> error + unit" where
  "check_features [] = Inr ()"
| "check_features (feature # features) =
     (if \<not> valid_name_variant feature then Inl (ValueError ''Invalid Feature'')
      else check_features features)"

definition TrainingSet_init ::
  "string \<Rightarrow> string \<Rightarrow> string \<Rightarrow> NameVariant \<Rightarrow> NameVariant list \<Rightarrow> string
     \<Rightarrow> error + TrainingSet" where
  "TrainingSet_init name variant owner label features description =
     (if \<not> valid_name_variant label then Inl (ValueError ''Label must be set'')
      else if length features = 0
        then Inl (ValueError ''A training-set must have atleast one feature'')
      else case check_features features of
          Inl e \<Rightarrow> Inl e
        | Inr u \<Rightarrow> Inr \<lparr> trainingset_name = name, trainingset_variant = variant,
                     trainingset_owner = owner, trainingset_label = label,
                     trainingset_features = features,
                     trainingset_description = description \<rparr>)"

text \<open>The union \<open>Resource\<close>, its members in the order of the source.\<close>

datatype Resource =
    RPrimaryData PrimaryData
  | RProvider Provider
  | REntity Entity
  | RUser User
  | RFeature Feature
  | RLabel Label
  | RTrainingSet TrainingSet
  | RSource Source

text \<open>
  \<open>resource.type()\<close>, \<open>resource.name\<close> and \<open>resource.variant\<close> with \<open>hasattr(resource,
  'variant')\<close>. \<open>PrimaryData\<close> is a member of the union and has none of the three.
\<close>

fun resource_type :: "Resource \<Rightarrow> error + string" where
  "resource_type (RPrimaryData d) = Inl (AttributeError ''PrimaryData'' ''type'')"
| "resource_type (RProvider p) = Inr ''provider''"
| "resource_type (REntity e) = Inr ''entity''"
| "resource_type (RUser u) = Inr ''user''"
| "resource_type (RFeature f) = Inr ''feature''"
| "resource_type (RLabel l) = Inr ''label''"
| "resource_type (RTrainingSet t) = Inr ''training-set''"
| "resource_type (RSource s) = Inr ''source''"

fun resource_name :: "Resource \<Rightarrow> error + string" where
  "resource_name (RPrimaryData d) = Inl (AttributeError ''PrimaryData'' ''name'')"
| "resource_name (RProvider p) = Inr (provider_name p)"
| "resource_name (REntity e) = Inr (entity_name e)"
| "resource_name (RUser u) = Inr (user_name u)"
| "resource_name (RFeature f) = Inr (feature_name f)"
| "resource_name (RLabel l) = Inr (label_name l)"
| "resource_name (RTrainingSet t) = Inr (trainingset_name t)"
| "resource_name (RSource s) = Inr (source_name s)"

fun resource_variant :: "Resource \<Rightarrow> string option" where
  "resource_variant (RFeature f) = Some (feature_variant f)"
| "resource_variant (RLabel l) = Some (label_variant l)"
| "resource_variant (RTrainingSet t) = Some (trainingset_variant t)"
| "resource_variant (RSource s) = Some (source_variant s)"
| "resource_variant r = None"

subsection \<open>The redefinition error\<close>

text \<open>
  \<open>ResourceRedefinedError.__init__\<close> builds the message from the variant, the name and
  the type, in that order; an attribute the resource lacks raises in its place.
\<close>

definition ResourceRedefinedError_init :: "Resource \<Rightarrow> error" where
  "ResourceRedefinedError_init resource =
     (let variantStr = (case resource_variant resource of
                          Some v \<Rightarrow> '' variant '' @ v | None \<Rightarrow> '''')
      in case resource_name resource of
           Inl e \<Rightarrow> e
         | Inr name \<Rightarrow>
             (let resourceId = name @ variantStr
              in case resource_type resource of
                   Inl e \<Rightarrow> e
                 | Inr ty \<Rightarrow> ResourceRedefinedError
                     (ty @ '' resource '' @ resourceId @ '' defined in multiple places'')))"

subsection \<open>The registry\<close>

text \<open>
  \<open>__state\<close> is a Python dict, which keeps its keys in insertion order: an association
  list. \<open>dict_contains\<close> is \<open>key in d\<close> and \<open>dict_setitem\<close> is \<open>d[key] = value\<close>, which
  replaces the value of a present key in place and appends an absent one.
\<close>

type_synonym ResourceKey = "string \<times> string"

record ResourceState =
  state :: "(ResourceKey \<times> Resource) list"
  create_list :: "Resource list"

definition ResourceState_init :: ResourceState where
  "ResourceState_init = \<lparr> state = [], create_list = [] \<rparr>"

fun dict_contains :: "('k \<times> 'v) list \<Rightarrow> 'k \<Rightarrow> bool" where
  "dict_contains [] key = False"
| "dict_contains ((k, v) # d) key = (k = key \<or> dict_contains d key)"

fun dict_setitem :: "('k \<times> 'v) list \<Rightarrow> 'k \<Rightarrow> 'v \<Rightarrow> ('k \<times> 'v) list" where
  "dict_setitem [] key value = [(key, value)]"
| "dict_setitem ((k, v) # d) key value =
     (if k = key then (k, value) # d else (k, v) # dict_setitem d key value)"

definition dict_values :: "('k \<times> 'v) list \<Rightarrow> 'v list" where
  "dict_values d = map snd d"

text \<open>The key \<open>(resource.type(), resource.name)\<close> that \<open>add\<close> computes first.\<close>

definition resource_key :: "Resource \<Rightarrow> error + ResourceKey" where
  "resource_key resource =
     (case resource_type resource of
        Inl e \<Rightarrow> Inl e
      | Inr ty \<Rightarrow> (case resource_name resource of
                    Inl e \<Rightarrow> Inl e
                  | Inr name \<Rightarrow> Inr (ty, name)))"

text \<open>
  \<open>add\<close> returns what the call raised, if anything, together with the registry after the
  call: the object outlives the exception.
\<close>

definition add :: "Resource \<Rightarrow> ResourceState \<Rightarrow> (error + unit) \<times> ResourceState" where
  "add resource s =
     (case resource_key resource of
        Inl e \<Rightarrow> (Inl e, s)
      | Inr key \<Rightarrow>
          if dict_contains (state s) key
          then (Inl (ResourceRedefinedError_init resource), s)
          else (Inr (), \<lparr> state = dict_setitem (state s) key resource,
                          create_list = create_list s @ [resource] \<rparr>))"

text \<open>A caller making one \<open>add\<close> call per resource, each exception caught and recorded.\<close>

fun add_all :: "Resource list \<Rightarrow> ResourceState \<Rightarrow> (error + unit) list \<times> ResourceState" where
  "add_all [] s = ([], s)"
| "add_all (resource # resources) s =
     (case add resource s of
        (outcome, s') \<Rightarrow>
          (case add_all resources s' of
             (outcomes, s'') \<Rightarrow> (outcome # outcomes, s'')))"

subsection \<open>The sorted listing\<close>

definition resource_order :: "(string \<times> int) list" where
  "resource_order =
     [(''user'', 0), (''provider'', 1), (''source'', 2), (''entity'', 3),
      (''feature'', 4), (''label'', 5), (''training-set'', 6)]"

text \<open>\<open>d[key]\<close>, with \<open>None\<close> where Python raises \<open>KeyError\<close>.\<close>

fun dict_getitem :: "('k \<times> 'v) list \<Rightarrow> 'k \<Rightarrow> 'v option" where
  "dict_getitem [] key = None"
| "dict_getitem ((k, v) # d) key = (if k = key then Some v else dict_getitem d key)"

type_synonym SortKey = "int \<times> string \<times> string"

definition to_sort_key :: "Resource \<Rightarrow> error + SortKey" where
  "to_sort_key res =
     (case resource_type res of
        Inl e \<Rightarrow> Inl e
      | Inr ty \<Rightarrow>
          (case dict_getitem resource_order ty of
             None \<Rightarrow> Inl (KeyError ty)
           | Some resource_num \<Rightarrow>
               (let variant = (case resource_variant res of Some v \<Rightarrow> v | None \<Rightarrow> [])
                in case resource_name res of
                     Inl e \<Rightarrow> Inl e
                   | Inr name \<Rightarrow> Inr (resource_num, name, variant))))"

text \<open>
  The builtin \<open>sorted(xs, key=f)\<close>: the keys are computed once, left to right, the first
  exception ending the call; the sort is stable, as \<open>sort_key\<close> is.
\<close>

fun sort_keys :: "('a \<Rightarrow> error + 'k) \<Rightarrow> 'a list \<Rightarrow> error + ('k \<times> 'a) list" where
  "sort_keys key [] = Inr []"
| "sort_keys key (x # xs) =
     (case key x of
        Inl e \<Rightarrow> Inl e
      | Inr k \<Rightarrow> (case sort_keys key xs of
                   Inl e \<Rightarrow> Inl e
                 | Inr kxs \<Rightarrow> Inr ((k, x) # kxs)))"

definition sorted_builtin :: "('a \<Rightarrow> error + 'k::linorder) \<Rightarrow> 'a list \<Rightarrow> error + 'a list" where
  "sorted_builtin key xs =
     (case sort_keys key xs of
        Inl e \<Rightarrow> Inl e
      | Inr kxs \<Rightarrow> Inr (map snd (sort_key fst kxs)))"

text \<open>\<open>sorted_list\<close> returns its result together with the registry after the call.\<close>

definition sorted_list :: "ResourceState \<Rightarrow> (error + Resource list) \<times> ResourceState" where
  "sorted_list s = (sorted_builtin to_sort_key (dict_values (state s)), s)"

subsection \<open>Serialising a Snowflake configuration\<close>

type_synonym bytes = "8 word list"

text \<open>
  \<open>json.dumps\<close> with its defaults, on a dict from \<open>str\<close> to \<open>str\<close>. A string is written
  between double quotes by \<open>py_encode_basestring_ascii\<close>: backslash, double quote and the
  five control characters with a short form have their two-character escape, every other
  character outside the range from space to tilde is written as \<open>\uXXXX\<close> with four
  lower-case hexadecimal digits, and the rest stand for themselves. The items are
  separated by a comma and a space, key and value by a colon and a space.
\<close>

definition hex_digit :: "nat \<Rightarrow> char" where
  "hex_digit n = (if n < 10 then char_of (48 + n) else char_of (87 + n))"

definition escape_char :: "char \<Rightarrow> string" where
  "escape_char c =
     (let n = (of_char c :: nat) in
      if n = 92 then [CHR 0x5C, CHR 0x5C]
      else if n = 34 then [CHR 0x5C, CHR 0x22]
      else if n = 8 then [CHR 0x5C, CHR ''b'']
      else if n = 12 then [CHR 0x5C, CHR ''f'']
      else if n = 10 then [CHR 0x5C, CHR ''n'']
      else if n = 13 then [CHR 0x5C, CHR ''r'']
      else if n = 9 then [CHR 0x5C, CHR ''t'']
      else if 32 \<le> n \<and> n \<le> 126 then [c]
      else [CHR 0x5C, CHR ''u'',
            hex_digit (n div 4096 mod 16), hex_digit (n div 256 mod 16),
            hex_digit (n div 16 mod 16), hex_digit (n mod 16)])"

definition py_encode_basestring_ascii :: "string \<Rightarrow> string" where
  "py_encode_basestring_ascii s = [CHR 0x22] @ concat (map escape_char s) @ [CHR 0x22]"

definition json_item :: "string \<times> string \<Rightarrow> string" where
  "json_item kv =
     py_encode_basestring_ascii (fst kv) @ '': '' @ py_encode_basestring_ascii (snd kv)"

fun json_items :: "(string \<times> string) list \<Rightarrow> string" where
  "json_items [] = []"
| "json_items [kv] = json_item kv"
| "json_items (kv # kvs) = json_item kv @ '', '' @ json_items kvs"

definition json_dumps :: "(string \<times> string) list \<Rightarrow> string" where
  "json_dumps config = ''{'' @ json_items config @ ''}''"

text \<open>\<open>bytes(s, "utf-8")\<close> on the code points 0 to 255: one byte below 128, two from there.\<close>

definition utf8_char :: "char \<Rightarrow> bytes" where
  "utf8_char c =
     (let n = (of_char c :: nat) in
      if n < 128 then [word_of_nat n]
      else [word_of_nat (192 + n div 64), word_of_nat (128 + n mod 64)])"

definition utf8_encode :: "string \<Rightarrow> bytes" where
  "utf8_encode s = concat (map utf8_char s)"

definition snowflake_fields :: "SnowflakeConfig \<Rightarrow> (string \<times> string) list" where
  "snowflake_fields c =
     [(''Username'', snowflake_username c),
      (''Password'', snowflake_password c),
      (''Organization'', snowflake_organization c),
      (''Account'', snowflake_account c),
      (''Database'', snowflake_database c)]"

definition SnowflakeConfig_serialize :: "SnowflakeConfig \<Rightarrow> bytes" where
  "SnowflakeConfig_serialize c = utf8_encode (json_dumps (snowflake_fields c))"

text \<open>Only \<open>SnowflakeConfig\<close> defines \<open>serialize\<close>.\<close>

fun config_serialize :: "Config \<Rightarrow> error + bytes" where
  "config_serialize (Snowflake c) = Inr (SnowflakeConfig_serialize c)"
| "config_serialize c = Inl (AttributeError (config_class c) ''serialize'')"

subsection \<open>Wire messages and the stub\<close>

text \<open>
  The messages of \<open>metadata_pb2\<close> that the module builds, with the fields it sets. A
  \<open>SourceVariant\<close> receives exactly one of \<open>primaryData\<close> and \<open>transformation\<close> from the
  \<open>kwargs\<close> of the source's definition.
\<close>

record pb_User =
  pb_user_name :: string

record pb_Provider =
  pb_provider_name :: string
  pb_provider_description :: string
  pb_provider_type :: string
  pb_provider_software :: string
  pb_provider_team :: string
  pb_provider_serialized_config :: bytes

datatype pb_PrimarySQLTable = pb_PrimarySQLTable string
datatype pb_PrimaryData = pb_PrimaryData pb_PrimarySQLTable
datatype pb_SQLTransformation = pb_SQLTransformation string
datatype pb_Transformation = pb_Transformation pb_SQLTransformation

datatype pb_definition =
    primaryData pb_PrimaryData
  | transformation pb_Transformation

record pb_SourceVariant =
  pb_source_name :: string
  pb_source_variant :: string
  pb_source_owner :: string
  pb_source_description :: string
  pb_source_provider :: string
  pb_source_definition :: pb_definition

fun definition_kwargs :: "SourceDefinition \<Rightarrow> error + pb_definition" where
  "definition_kwargs (DefPrimaryData d) =
     Inr (primaryData (pb_PrimaryData
            (pb_PrimarySQLTable (sqltable_name (primarydata_location d)))))"
| "definition_kwargs (DefSQLTransformation t) =
     Inr (transformation (pb_Transformation
            (pb_SQLTransformation (sqltransformation_query t))))"
| "definition_kwargs DefTransformation = Inl (AttributeError ''Transformation'' ''kwargs'')"

text \<open>The three methods of the stub that the module calls, each with its message.\<close>

datatype rpc =
    CreateUser pb_User
  | CreateProvider pb_Provider
  | CreateSourceVariant pb_SourceVariant

text \<open>
  A stub answers a call by returning (\<open>None\<close>) or by raising; its answer may depend on
  the calls made before, given oldest first.
\<close>

type_synonym Stub = "rpc list \<Rightarrow> rpc \<Rightarrow> error option"

text \<open>
  What \<open>resource._create\<close> does before it calls the stub. \<open>Provider._create\<close> evaluates
  \<open>self.config.type()\<close> before \<open>self.config.serialize()\<close>. The classes \<open>Entity\<close>, \<open>Feature\<close>,
  \<open>Label\<close>, \<open>TrainingSet\<close> and \<open>PrimaryData\<close> have no \<open>_create\<close>.
\<close>

fun create_request :: "Resource \<Rightarrow> error + rpc" where
  "create_request (RUser u) = Inr (CreateUser \<lparr> pb_user_name = user_name u \<rparr>)"
| "create_request (RProvider p) =
     (case config_type (provider_config p) of
        Inl e \<Rightarrow> Inl e
      | Inr ty \<Rightarrow>
          (case config_serialize (provider_config p) of
             Inl e \<Rightarrow> Inl e
           | Inr serialized_config \<Rightarrow>
               Inr (CreateProvider
                 \<lparr> pb_provider_name = provider_name p,
                   pb_provider_description = provider_description p,
                   pb_provider_type = ty,
                   pb_provider_software = config_software (provider_config p),
                   pb_provider_team = provider_team p,
                   pb_provider_serialized_config = serialized_config \<rparr>)))"
| "create_request (RSource s) =
     (case definition_kwargs (source_definition s) of
        Inl e \<Rightarrow> Inl e
      | Inr defArgs \<Rightarrow>
          Inr (CreateSourceVariant
            \<lparr> pb_source_name = source_name s,
              pb_source_variant = source_variant s,
              pb_source_owner = source_owner s,
              pb_source_description = source_description s,
              pb_source_provider = source_provider s,
              pb_source_definition = defArgs \<rparr>))"
| "create_request (REntity e) = Inl (AttributeError ''Entity'' ''_create'')"
| "create_request (RFeature f) = Inl (AttributeError ''Feature'' ''_create'')"
| "create_request (RLabel l) = Inl (AttributeError ''Label'' ''_create'')"
| "create_request (RTrainingSet t) = Inl (AttributeError ''TrainingSet'' ''_create'')"
| "create_request (RPrimaryData d) = Inl (AttributeError ''PrimaryData'' ''_create'')"

text \<open>
  \<open>resource._create(stub)\<close>: what it raised, if anything, and the calls made so far.
\<close>

definition resource_create :: "Stub \<Rightarrow> rpc list \<Rightarrow> Resource \<Rightarrow> error option \<times> rpc list" where
  "resource_create stub made resource =
     (case create_request resource of
        Inl e \<Rightarrow> (Some e, made)
      | Inr call \<Rightarrow> (stub made call, made @ [call]))"

subsection \<open>Applying the registry\<close>

text \<open>
  The result of \<open>create_all\<close>: the exception that left it, if any, the calls the stub
  received, oldest first, and the lines printed.
\<close>

record Applied =
  raised :: "error option"
  calls :: "rpc list"
  printed :: "string list"

text \<open>
  The loop of \<open>create_all\<close>. Both \<open>print\<close> calls write their two arguments with a space
  between them. The handler catches \<open>_InactiveRpcError\<close> and nothing else, and does not
  look at the exception it caught.
\<close>

fun create_loop :: "Stub \<Rightarrow> Resource list \<Rightarrow> rpc list \<Rightarrow> string list \<Rightarrow> Applied" where
  "create_loop stub [] made out = \<lparr> raised = None, calls = made, printed = out \<rparr>"
| "create_loop stub (resource # resources) made out =
     (case resource_name resource of
        Inl e \<Rightarrow> \<lparr> raised = Some e, calls = made, printed = out \<rparr>
      | Inr name \<Rightarrow>
          (let out' = out @ [''Creating '' @ '' '' @ name]
           in case resource_create stub made resource of
                (None, made') \<Rightarrow> create_loop stub resources made' out'
              | (Some (InactiveRpcError code), made') \<Rightarrow>
                  create_loop stub resources made'
                    (out' @ [name @ '' '' @ '' already exists.''])
              | (Some e, made') \<Rightarrow> \<lparr> raised = Some e, calls = made', printed = out' \<rparr>))"

definition create_all :: "Stub \<Rightarrow> ResourceState \<Rightarrow> Applied \<times> ResourceState" where
  "create_all stub s = (create_loop stub (create_list s) [] [], s)"

subsection \<open>The registry's consistency\<close>

text \<open>
  What the two fields of a registry have to do with each other: the creation list holds
  the values of the map in the map's order, no key occurs twice, and every resource is
  stored under its own key.
\<close>

definition registry_ok :: "ResourceState \<Rightarrow> bool" where
  "registry_ok s =
     (create_list s = dict_values (state s)
      \<and> distinct (map fst (state s))
      \<and> map resource_key (create_list s) = map Inr (map fst (state s)))"

subsection \<open>Concrete resources and stubs\<close>

definition registry_of :: "Resource list \<Rightarrow> ResourceState" where
  "registry_of resources = snd (add_all resources ResourceState_init)"

definition example_user :: "string \<Rightarrow> Resource" where
  "example_user name = RUser \<lparr> user_name = name \<rparr>"

definition example_source :: "string \<Rightarrow> Source" where
  "example_source variant =
     \<lparr> source_name = ''transactions'', source_variant = variant,
       source_definition =
         DefPrimaryData \<lparr> primarydata_location = \<lparr> sqltable_name = ''txn'' \<rparr> \<rparr>,
       source_owner = ''alice'', source_provider = ''pg'', source_description = ''raw'' \<rparr>"

text \<open>
  The provider \<open>pg\<close> with the Postgres configuration of host \<open>h\<close>, port 5432, database
  \<open>d\<close>, user \<open>u\<close> and password \<open>p\<close>; its three other fields are left open.
\<close>

definition example_provider :: "string \<Rightarrow> string \<Rightarrow> string \<Rightarrow> Resource" where
  "example_provider function description team =
     RProvider \<lparr> provider_name = ''pg'', provider_function = function,
       provider_config = Postgres \<lparr> postgres_host = ''h'', postgres_port = 5432,
         postgres_database = ''d'', postgres_user = ''u'', postgres_password = ''p'' \<rparr>,
       provider_description = description, provider_team = team \<rparr>"

definition example_entity :: Resource where
  "example_entity = REntity \<lparr> entity_name = ''user_id'', entity_description = ''desc'' \<rparr>"

definition example_resources :: "Resource list" where
  "example_resources =
     [example_entity, RSource (example_source ''v1''), example_user ''bob'',
      RSource (example_source ''v2''), example_user ''alice'']"

text \<open>
  A stub whose server has every resource already answers every call with the status
  \<open>ALREADY_EXISTS\<close>; the second stub fails its third call with the status \<open>UNAVAILABLE\<close>
  and accepts the others; the third accepts every call.
\<close>

definition already_exists_stub :: Stub where
  "already_exists_stub made call = Some (InactiveRpcError ALREADY_EXISTS)"

definition third_unavailable_stub :: Stub where
  "third_unavailable_stub made call =
     (if length made = 2 then Some (InactiveRpcError UNAVAILABLE) else None)"

definition accepting_stub :: Stub where
  "accepting_stub made call = None"

definition five_users :: "Resource list" where
  "five_users = [example_user ''u1'', example_user ''u2'', example_user ''u3'',
                 example_user ''u4'', example_user ''u5'']"

definition distinct_resources :: "Resource list" where
  "distinct_resources =
     [example_entity, example_user ''bob'', RSource (example_source ''v1''),
      example_user ''alice'']"

definition insertion_resources :: "Resource list" where
  "insertion_resources = [example_user ''bob'', example_user ''alice'', example_entity]"

subsection \<open>The sort key as the specification words it\<close>

text \<open>
  The specification gives the key of the listing as the priority of the kind (User 0,
  Provider 1, Source 2, Entity 3, Feature 4, Label 5, TrainingSet 6), then the name, then
  the variant or the empty string. It names no key for a \<open>PrimaryData\<close>, which is not one
  of its kinds. This definition is written from those words, to be compared with
  \<open>to_sort_key\<close>.
\<close>

definition spec_sort_key :: "Resource \<Rightarrow> SortKey option" where
  "spec_sort_key r =
     (case r of
        RUser u \<Rightarrow> Some (0, user_name u, [])
      | RProvider p \<Rightarrow> Some (1, provider_name p, [])
      | RSource s \<Rightarrow> Some (2, source_name s, source_variant s)
      | REntity e \<Rightarrow> Some (3, entity_name e, [])
      | RFeature f \<Rightarrow> Some (4, feature_name f, feature_variant f)
      | RLabel l \<Rightarrow> Some (5, label_name l, label_variant l)
      | RTrainingSet t \<Rightarrow> Some (6, trainingset_name t, trainingset_variant t)
      | RPrimaryData d \<Rightarrow> None)"

subsection \<open>Reading a payload back\<close>

text \<open>
  The module only writes the payload. To say what the bytes encode, here is the reader's
  side, which is not part of the module: UTF-8 decoding of the code points 0 to 255, and a
  reader of a flat JSON object whose keys and values are strings, laid out as
  \<open>json.dumps\<close> lays it out. \<open>read_string_body\<close> reads a string after its opening quote
  up to the closing one and undoes the escapes of JSON; \<open>read_items\<close> reads the items
  of the object, its first argument bounding their number.
\<close>

definition hex_value :: "char \<Rightarrow> nat option" where
  "hex_value c =
     (let n = (of_char c :: nat) in
      if 48 \<le> n \<and> n \<le> 57 then Some (n - 48)
      else if 97 \<le> n \<and> n \<le> 102 then Some (n - 87)
      else if 65 \<le> n \<and> n \<le> 70 then Some (n - 55)
      else None)"

definition simple_escape :: "char \<Rightarrow> char option" where
  "simple_escape e =
     (if e = CHR 0x22 then Some (CHR 0x22)
      else if e = CHR 0x5C then Some (CHR 0x5C)
      else if e = CHR ''/'' then Some (CHR ''/'')
      else if e = CHR ''b'' then Some (CHR 0x08)
      else if e = CHR ''f'' then Some (CHR 0x0C)
      else if e = CHR ''n'' then Some (CHR 0x0A)
      else if e = CHR ''r'' then Some (CHR 0x0D)
      else if e = CHR ''t'' then Some (CHR 0x09)
      else None)"

definition hex4 :: "char \<Rightarrow> char \<Rightarrow> char \<Rightarrow> char \<Rightarrow> nat option" where
  "hex4 h1 h2 h3 h4 =
     (case hex_value h1 of None \<Rightarrow> None | Some a \<Rightarrow>
      case hex_value h2 of None \<Rightarrow> None | Some b \<Rightarrow>
      case hex_value h3 of None \<Rightarrow> None | Some c \<Rightarrow>
      case hex_value h4 of None \<Rightarrow> None | Some d \<Rightarrow>
        Some (4096 * a + 256 * b + 16 * c + d))"

definition cons_result ::
  "char \<Rightarrow> (string \<times> string) option \<Rightarrow> (string \<times> string) option" where
  "cons_result c r = (case r of None \<Rightarrow> None | Some (s, rest) \<Rightarrow> Some (c # s, rest))"

fun read_string_body :: "string \<Rightarrow> (string \<times> string) option" where
  "read_string_body [] = None"
| "read_string_body (c # cs) =
     (if c = CHR 0x22 then Some ([], cs)
      else if c = CHR 0x5C then
        (case cs of
           [] \<Rightarrow> None
         | e # cs' \<Rightarrow>
             if e = CHR ''u'' then
               (case cs' of
                  h1 # h2 # h3 # h4 # cs'' \<Rightarrow>
                    (case hex4 h1 h2 h3 h4 of
                       None \<Rightarrow> None
                     | Some n \<Rightarrow>
                         if n < 256 then cons_result (char_of n) (read_string_body cs'')
                         else None)
                | _ \<Rightarrow> None)
             else (case simple_escape e of
                     None \<Rightarrow> None
                   | Some ch \<Rightarrow> cons_result ch (read_string_body cs')))
      else cons_result c (read_string_body cs))"

definition read_string :: "string \<Rightarrow> (string \<times> string) option" where
  "read_string s =
     (case s of [] \<Rightarrow> None
      | c # cs \<Rightarrow> if c = CHR 0x22 then read_string_body cs else None)"

definition expect :: "string \<Rightarrow> string \<Rightarrow> string option" where
  "expect p s = (if take (length p) s = p then Some (drop (length p) s) else None)"

definition read_item :: "string \<Rightarrow> ((string \<times> string) \<times> string) option" where
  "read_item s =
     (case read_string s of
        None \<Rightarrow> None
      | Some (k, r1) \<Rightarrow>
          (case expect '': '' r1 of
             None \<Rightarrow> None
           | Some r2 \<Rightarrow>
               (case read_string r2 of
                  None \<Rightarrow> None
                | Some (v, r3) \<Rightarrow> Some ((k, v), r3))))"

fun read_items :: "nat \<Rightarrow> string \<Rightarrow> ((string \<times> string) list \<times> string) option" where
  "read_items 0 s = None"
| "read_items (Suc n) s =
     (case read_item s of
        None \<Rightarrow> None
      | Some (kv, r) \<Rightarrow>
          (case expect '', '' r of
             None \<Rightarrow> Some ([kv], r)
           | Some r' \<Rightarrow>
               (case read_items n r' of
                  None \<Rightarrow> None
                | Some (kvs, rest) \<Rightarrow> Some (kv # kvs, rest))))"

definition json_loads :: "string \<Rightarrow> (string \<times> string) list option" where
  "json_loads s =
     (case expect ''{'' s of
        None \<Rightarrow> None
      | Some r \<Rightarrow>
          if r = ''}'' then Some []
          else (case read_items (length s) r of
                  None \<Rightarrow> None
                | Some (kvs, rest) \<Rightarrow> if rest = ''}'' then Some kvs else None))"

fun utf8_decode :: "bytes \<Rightarrow> string option" where
  "utf8_decode [] = Some []"
| "utf8_decode [b] = (if unat b < 128 then Some [char_of (unat b)] else None)"
| "utf8_decode (b # b' # bs) =
     (if unat b < 128 then
        (case utf8_decode (b' # bs) of None \<Rightarrow> None | Some s \<Rightarrow> Some (char_of (unat b) # s))
      else if 194 \<le> unat b \<and> unat b < 196 \<and> 128 \<le> unat b' \<and> unat b' < 192 then
        (case utf8_decode bs of
           None \<Rightarrow> None
         | Some s \<Rightarrow> Some (char_of ((unat b - 192) * 64 + (unat b' - 128)) # s))
      else None)"

definition example_snowflake :: SnowflakeConfig where
  "example_snowflake =
     \<lparr> snowflake_account = [CHR ''a'', CHR 0xE9], snowflake_database = ''db'',
       snowflake_organization = ''org'', snowflake_username = ''svc'',
       snowflake_password = [CHR ''p'', CHR 0x22, CHR ''w''], snowflake_schema = ''public'' \<rparr>"

lemmas example_defs =
  example_user_def example_provider_def example_entity_def example_source_def
  registry_of_def already_exists_stub_def
  third_unavailable_stub_def ResourceState_init_def add_def resource_key_def
  create_all_def resource_create_def

section \<open>Redefinition\<close>

lemma resource_key_type_name:
  "resource_key r = Inr (ty, name) \<longleftrightarrow> resource_type r = Inr ty \<and> resource_name r = Inr name"
  by (cases r) (auto simp: resource_key_def)

text \<open>
  Claim C1. Whatever the registry, adding a resource whose key \<open>(kind, name)\<close> is already
  in the uniqueness map raises the redefinition error, whose message starts with that
  kind and name (followed by the variant when the resource has one) and which does not
  depend on the variant of the resource stored under the key; the registry after the call
  is the registry before it, map and creation list alike.
\<close>

theorem add_redefinition:
  assumes "resource_key resource = Inr (kind, name)"
    and "dict_contains (state s) (kind, name)"
  shows "add resource s =
           (Inl (ResourceRedefinedError
                   (kind @ '' resource '' @ name
                      @ (case resource_variant resource of
                           Some v \<Rightarrow> '' variant '' @ v | None \<Rightarrow> '''')
                      @ '' defined in multiple places'')), s)"
proof -
  from assms(1) have "resource_type resource = Inr kind" "resource_name resource = Inr name"
    by (simp_all add: resource_key_type_name)
  then have "ResourceRedefinedError_init resource =
      ResourceRedefinedError
        (kind @ '' resource '' @ name
           @ (case resource_variant resource of Some v \<Rightarrow> '' variant '' @ v | None \<Rightarrow> '''')
           @ '' defined in multiple places'')"
    by (simp add: ResourceRedefinedError_init_def)
  with assms show ?thesis
    by (simp add: add_def)
qed

theorem add_redefinition_witness:
  "resource_key (RSource (example_source ''v2'')) = Inr (''source'', ''transactions'')
   \<and> dict_contains (state (registry_of [RSource (example_source ''v1'')]))
         (''source'', ''transactions'')
   \<and> add (RSource (example_source ''v2'')) (registry_of [RSource (example_source ''v1'')]) =
       (Inl (ResourceRedefinedError
          ''source resource transactions variant v2 defined in multiple places''),
        registry_of [RSource (example_source ''v1'')])"
proof -
  have h1: "resource_key (RSource (example_source ''v2'')) = Inr (''source'', ''transactions'')"
    by (simp add: example_defs)
  have h2: "dict_contains (state (registry_of [RSource (example_source ''v1'')]))
      (''source'', ''transactions'')"
    by (simp add: example_defs)
  show ?thesis
    using add_redefinition[OF h1 h2] h1 h2 by (simp add: example_source_def)
qed

section \<open>Constructing a training set\<close>

text \<open>
  Claim C3. The constructor of \<open>TrainingSet\<close> takes no registry. It fails with a
  \<open>ValueError\<close> when the label has an empty name or an empty variant, when the list of
  features is empty, or when some feature has an empty name or an empty variant, and in
  no other case: otherwise it returns the training set with the six fields it was given.
\<close>

theorem TrainingSet_init_checks:
  "TrainingSet_init name variant owner label features description =
     (if fst label = [] \<or> snd label = [] then Inl (ValueError ''Label must be set'')
      else if features = []
        then Inl (ValueError ''A training-set must have atleast one feature'')
      else if \<exists>f \<in> set features. fst f = [] \<or> snd f = []
        then Inl (ValueError ''Invalid Feature'')
      else Inr \<lparr> trainingset_name = name, trainingset_variant = variant,
                trainingset_owner = owner, trainingset_label = label,
                trainingset_features = features, trainingset_description = description \<rparr>)"
proof -
  have "check_features fs = (if \<exists>f \<in> set fs. fst f = [] \<or> snd f = []
          then Inl (ValueError ''Invalid Feature'') else Inr ())" for fs
    by (induction fs) (auto simp: valid_name_variant_def)
  then show ?thesis
    by (auto simp: TrainingSet_init_def valid_name_variant_def)
qed

theorem TrainingSet_init_checks_witness:
  "TrainingSet_init ''ts'' ''v1'' ''alice'' ('''', ''v1'') [(''f'', ''v1'')] ''d''
     = Inl (ValueError ''Label must be set'')
   \<and> TrainingSet_init ''ts'' ''v1'' ''alice'' (''l'', ''v1'') [] ''d''
     = Inl (ValueError ''A training-set must have atleast one feature'')
   \<and> TrainingSet_init ''ts'' ''v1'' ''alice'' (''l'', ''v1'') [(''f'', ''v1''), (''g'', '''')] ''d''
     = Inl (ValueError ''Invalid Feature'')
   \<and> TrainingSet_init ''ts'' ''v1'' ''alice'' (''l'', ''v1'') [(''f'', ''v1''), (''g'', ''v2'')] ''d''
     = Inr \<lparr> trainingset_name = ''ts'', trainingset_variant = ''v1'',
             trainingset_owner = ''alice'', trainingset_label = (''l'', ''v1''),
             trainingset_features = [(''f'', ''v1''), (''g'', ''v2'')],
             trainingset_description = ''d'' \<rparr>"
  using
    TrainingSet_init_checks[of "''ts''" "''v1''" "''alice''" "('''', ''v1'')"
      "[(''f'', ''v1'')]" "''d''"]
    TrainingSet_init_checks[of "''ts''" "''v1''" "''alice''" "(''l'', ''v1'')" "[]" "''d''"]
    TrainingSet_init_checks[of "''ts''" "''v1''" "''alice''" "(''l'', ''v1'')"
      "[(''f'', ''v1''), (''g'', '''')]" "''d''"]
    TrainingSet_init_checks[of "''ts''" "''v1''" "''alice''" "(''l'', ''v1'')"
      "[(''f'', ''v1''), (''g'', ''v2'')]" "''d''"]
  by simp

section \<open>The registry under \<open>add\<close>\<close>

lemma dict_contains_iff: "dict_contains d key \<longleftrightarrow> key \<in> fst ` set d"
  by (induction d key rule: dict_contains.induct) auto

lemma dict_setitem_fresh: "key \<notin> fst ` set d \<Longrightarrow> dict_setitem d key v = d @ [(key, v)]"
  by (induction d key v rule: dict_setitem.induct) auto

text \<open>The two ways an \<open>add\<close> call ends.\<close>

lemma add_cases:
  "add r s = (out, s') \<Longrightarrow>
     (out = Inr () \<and> (\<exists>key. resource_key r = Inr key \<and> key \<notin> fst ` set (state s)
         \<and> s' = \<lparr> state = state s @ [(key, r)], create_list = create_list s @ [r] \<rparr>))
   \<or> ((\<exists>e. out = Inl e) \<and> s' = s)"
  by (auto simp: add_def dict_contains_iff dict_setitem_fresh split: sum.splits if_splits)

lemma add_fresh:
  "resource_key r = Inr key \<Longrightarrow> key \<notin> fst ` set (state s) \<Longrightarrow>
     add r s = (Inr (), \<lparr> state = state s @ [(key, r)], create_list = create_list s @ [r] \<rparr>)"
  by (simp add: add_def dict_contains_iff dict_setitem_fresh)

lemma registry_ok_init: "registry_ok ResourceState_init"
  by (simp add: registry_ok_def ResourceState_init_def dict_values_def)

lemma add_preserves_ok: "registry_ok s \<Longrightarrow> add r s = (out, s') \<Longrightarrow> registry_ok s'"
  by (drule add_cases) (auto simp: registry_ok_def dict_values_def)

lemma add_all_preserves_ok:
  "registry_ok s \<Longrightarrow> add_all rs s = (outs, s') \<Longrightarrow> registry_ok s'"
proof (induction rs arbitrary: s outs)
  case Nil
  then show ?case by simp
next
  case (Cons r rs)
  obtain out s1 where a: "add r s = (out, s1)" by (cases "add r s")
  obtain outs1 s2 where b: "add_all rs s1 = (outs1, s2)" by (cases "add_all rs s1")
  from Cons.prems(2) a b have "s' = s2" by simp
  moreover have "registry_ok s1" using Cons.prems(1) a by (rule add_preserves_ok)
  ultimately show ?case using Cons.IH b by simp
qed

text \<open>The creation list grows by the resources whose \<open>add\<close> returned, in call order.\<close>

lemma add_all_create_list:
  "add_all rs s = (outs, s') \<Longrightarrow>
     create_list s' = create_list s @ map fst (filter (\<lambda>p. snd p = Inr ()) (zip rs outs))"
proof (induction rs arbitrary: s outs s')
  case Nil
  then show ?case by simp
next
  case (Cons r rs)
  obtain out s1 where a: "add r s = (out, s1)" by (cases "add r s")
  obtain outs1 s2 where b: "add_all rs s1 = (outs1, s2)" by (cases "add_all rs s1")
  from Cons.prems a b have eq: "outs = out # outs1" "s' = s2" by simp_all
  have ih: "create_list s2 =
      create_list s1 @ map fst (filter (\<lambda>p. snd p = Inr ()) (zip rs outs1))"
    using b by (rule Cons.IH)
  from add_cases[OF a] show ?case
  proof
    assume "out = Inr () \<and> (\<exists>key. resource_key r = Inr key \<and> key \<notin> fst ` set (state s)
         \<and> s1 = \<lparr> state = state s @ [(key, r)], create_list = create_list s @ [r] \<rparr>)"
    then show ?thesis using ih eq by auto
  next
    assume "(\<exists>e. out = Inl e) \<and> s1 = s"
    then show ?thesis using ih eq by auto
  qed
qed

lemma distinct_map_Inr: "distinct (map Inr xs) = distinct xs"
  by (induction xs) auto

lemma distinct_of_map: "distinct (map f xs) \<Longrightarrow> distinct xs"
  by (simp add: distinct_map)

text \<open>
  Claim C10. After any sequence of \<open>add\<close> calls on a new registry, whichever of them
  raised, the creation list is the list of the values of the uniqueness map, it has no
  duplicates, the keys \<open>(kind, name)\<close> of its elements are pairwise distinct and are the
  keys of the map, and it consists of the resources whose \<open>add\<close> call returned, in the
  order of those calls.
\<close>

theorem add_all_invariant:
  assumes "add_all resources ResourceState_init = (outcomes, s)"
  shows "create_list s = dict_values (state s)
       \<and> distinct (create_list s)
       \<and> distinct (map resource_key (create_list s))
       \<and> map resource_key (create_list s) = map Inr (map fst (state s))
       \<and> create_list s = map fst (filter (\<lambda>p. snd p = Inr ()) (zip resources outcomes))"
proof -
  have ok: "registry_ok s"
    using registry_ok_init assms by (rule add_all_preserves_ok)
  then have "map resource_key (create_list s) = map Inr (map fst (state s))"
    and "distinct (map fst (state s))"
    unfolding registry_ok_def by blast+
  then have d: "distinct (map resource_key (create_list s))"
    by (simp only: distinct_map_Inr)
  then have "distinct (create_list s)" by (rule distinct_of_map)
  moreover have "create_list s = map fst (filter (\<lambda>p. snd p = Inr ()) (zip resources outcomes))"
    using add_all_create_list[OF assms] by (simp add: ResourceState_init_def)
  ultimately show ?thesis using ok d unfolding registry_ok_def by blast
qed

theorem add_all_invariant_witness:
  "add_all example_resources ResourceState_init =
     ([Inr (), Inr (), Inr (),
       Inl (ResourceRedefinedError
         ''source resource transactions variant v2 defined in multiple places''),
       Inr ()], registry_of example_resources)
   \<and> create_list (registry_of example_resources) =
       [example_entity, RSource (example_source ''v1''), example_user ''bob'',
        example_user ''alice'']
   \<and> create_list (registry_of example_resources) =
       dict_values (state (registry_of example_resources))
   \<and> distinct (map resource_key (create_list (registry_of example_resources)))"
proof -
  have h: "add_all example_resources ResourceState_init =
     ([Inr (), Inr (), Inr (),
       Inl (ResourceRedefinedError
         ''source resource transactions variant v2 defined in multiple places''),
       Inr ()], registry_of example_resources)"
    by (simp add: example_resources_def example_defs ResourceRedefinedError_init_def)
  from add_all_invariant[OF h]
  have "create_list (registry_of example_resources) =
      map fst (filter (\<lambda>p. snd p = Inr ()) (zip example_resources
        [Inr (), Inr (), Inr (),
         Inl (ResourceRedefinedError
           ''source resource transactions variant v2 defined in multiple places''),
         Inr ()]))"
    by blast
  then have "create_list (registry_of example_resources) =
       [example_entity, RSource (example_source ''v1''), example_user ''bob'',
        example_user ''alice'']"
    by (simp add: example_resources_def)
  then show ?thesis using add_all_invariant[OF h] h by blast
qed

section \<open>The sorted listing\<close>

text \<open>
  Claim C9. \<open>sorted_list\<close> leaves the registry as it found it, the uniqueness map and the
  creation list alike, so that \<open>create_all\<close> after it does what \<open>create_all\<close> would have
  done without it.
\<close>

theorem sorted_list_pure:
  "snd (sorted_list s) = s
   \<and> state (snd (sorted_list s)) = state s
   \<and> create_list (snd (sorted_list s)) = create_list s
   \<and> create_all stub (snd (sorted_list s)) = create_all stub s"
  by (simp add: sorted_list_def)

text \<open>Adding resources whose keys are new and pairwise distinct appends all of them.\<close>

lemma add_all_fresh:
  "map resource_key rs = map Inr keys \<Longrightarrow> distinct keys \<Longrightarrow>
   set keys \<inter> fst ` set (state s) = {} \<Longrightarrow>
   add_all rs s = (replicate (length rs) (Inr ()),
                   \<lparr> state = state s @ zip keys rs, create_list = create_list s @ rs \<rparr>)"
proof (induction rs arbitrary: keys s)
  case Nil
  then show ?case by simp
next
  case (Cons r rs)
  from Cons.prems(1) obtain key keys' where k: "keys = key # keys'"
    "resource_key r = Inr key" "map resource_key rs = map Inr keys'"
    by (cases keys) auto
  let ?s1 = "\<lparr> state = state s @ [(key, r)], create_list = create_list s @ [r] \<rparr>"
  from Cons.prems(3) k(1) have fresh: "key \<notin> fst ` set (state s)" by auto
  have a: "add r s = (Inr (), ?s1)" using k(2) fresh by (rule add_fresh)
  have "set keys' \<inter> fst ` set (state ?s1) = {}"
    using Cons.prems(2,3) k(1) by auto
  moreover have "distinct keys'" using Cons.prems(2) k(1) by simp
  ultimately have "add_all rs ?s1 = (replicate (length rs) (Inr ()),
      \<lparr> state = state ?s1 @ zip keys' rs, create_list = create_list ?s1 @ rs \<rparr>)"
    using Cons.IH[OF k(3)] by blast
  with a k(1) show ?case by simp
qed

text \<open>The key the code computes is the key of the specification.\<close>

lemma to_sort_key_spec: "to_sort_key r = Inr k \<longleftrightarrow> spec_sort_key r = Some k"
  by (cases r) (auto simp: to_sort_key_def spec_sort_key_def resource_order_def)

lemma map_to_sort_key_spec:
  "map to_sort_key rs = map Inr ks \<Longrightarrow> map spec_sort_key rs = map Some ks"
proof (induction rs arbitrary: ks)
  case Nil
  then show ?case by simp
next
  case (Cons r rs)
  then obtain k ks' where "ks = k # ks'" "to_sort_key r = Inr k"
    "map to_sort_key rs = map Inr ks'"
    by (cases ks) auto
  then show ?case using Cons.IH by (simp add: to_sort_key_spec)
qed

lemma to_sort_key_defined: "resource_key r = Inr key \<Longrightarrow> \<exists>k. to_sort_key r = Inr k"
  by (cases r) (simp_all add: to_sort_key_def resource_order_def resource_key_def)

text \<open>Keys are triples compared component by component, the earlier component first.\<close>

lemma SortKey_le:
  "(a :: SortKey) \<le> b \<longleftrightarrow>
     fst a < fst b \<or> fst a = fst b \<and>
       (fst (snd a) < fst (snd b)
        \<or> fst (snd a) = fst (snd b) \<and> snd (snd a) \<le> snd (snd b))"
  by (auto simp: less_eq_prod_def)

lemma sort_keys_defined:
  "\<forall>x \<in> set xs. \<exists>k. key x = Inr k \<Longrightarrow> \<exists>kxs. sort_keys key xs = Inr kxs"
  by (induction xs) auto

lemma sort_keys_Inr:
  "sort_keys key xs = Inr kxs \<Longrightarrow>
     map snd kxs = xs \<and> (\<forall>p \<in> set kxs. key (snd p) = Inr (fst p))"
  by (induction xs arbitrary: kxs) (auto split: sum.splits)

text \<open>
  Where every key can be computed, \<open>sorted\<close> returns a rearrangement of its input whose
  keys ascend.
\<close>

lemma sorted_builtin_sorts:
  assumes "\<forall>x \<in> set xs. \<exists>k. key x = Inr k"
  shows "\<exists>out ks. sorted_builtin key xs = Inr out \<and> mset out = mset xs
           \<and> map key out = map Inr ks \<and> sorted ks"
proof -
  from sort_keys_defined[OF assms] obtain kxs where kxs: "sort_keys key xs = Inr kxs" ..
  let ?sorted = "sort_key fst kxs"
  let ?out = "map snd ?sorted"
  from sort_keys_Inr[OF kxs] have xs: "map snd kxs = xs"
    and keys: "\<forall>p \<in> set kxs. key (snd p) = Inr (fst p)" by blast+
  have "sorted_builtin key xs = Inr ?out" by (simp add: sorted_builtin_def kxs)
  moreover have "mset ?out = mset xs"
  proof -
    have "mset ?out = image_mset snd (mset ?sorted)" by simp
    also have "\<dots> = image_mset snd (mset kxs)" by simp
    also have "\<dots> = mset (map snd kxs)" by simp
    finally show ?thesis by (simp only: xs)
  qed
  moreover have "map key ?out = map Inr (map fst ?sorted)"
    using keys by simp
  moreover have "sorted (map fst ?sorted)" by (rule sorted_sort_key)
  ultimately show ?thesis by blast
qed

text \<open>
  Claim C2. When the resources of a sequence of \<open>add\<close> calls on a new registry have
  pairwise distinct keys \<open>(kind, name)\<close>, every call returns, and \<open>sorted_list\<close> then
  returns a rearrangement of exactly those resources whose keys ascend. The key of a
  resource is the one of the specification: the priority of its kind (User 0, Provider 1,
  Source 2, Entity 3, Feature 4, Label 5, TrainingSet 6), its name, and its variant or the
  empty string; keys are compared by priority, then by name, then by variant.
\<close>

theorem add_all_distinct_sorted_list:
  assumes "map resource_key resources = map Inr keys" and "distinct keys"
  shows "(\<exists>s out ks.
            add_all resources ResourceState_init = (replicate (length resources) (Inr ()), s)
          \<and> sorted_list s = (Inr out, s)
          \<and> mset out = mset resources
          \<and> map to_sort_key out = map Inr ks
          \<and> map spec_sort_key out = map Some ks
          \<and> sorted ks)
       \<and> (\<forall>a b :: SortKey. a \<le> b \<longleftrightarrow>
             fst a < fst b \<or> fst a = fst b \<and>
               (fst (snd a) < fst (snd b)
                \<or> fst (snd a) = fst (snd b) \<and> snd (snd a) \<le> snd (snd b)))"
proof -
  let ?s = "\<lparr> state = zip keys resources, create_list = resources \<rparr>"
  have len: "length keys = length resources"
    using assms(1) by (metis length_map)
  have a: "add_all resources ResourceState_init = (replicate (length resources) (Inr ()), ?s)"
    using add_all_fresh[OF assms, of ResourceState_init] by (simp add: ResourceState_init_def)
  have vals: "dict_values (zip keys resources) = resources"
    using len by (simp add: dict_values_def)
  have "\<forall>r \<in> set resources. \<exists>k. to_sort_key r = Inr k"
  proof
    fix r assume "r \<in> set resources"
    then have "resource_key r \<in> set (map Inr keys)"
      using assms(1) by (metis image_eqI list.set_map)
    then obtain key where "resource_key r = Inr key" by auto
    then show "\<exists>k. to_sort_key r = Inr k" by (rule to_sort_key_defined)
  qed
  from sorted_builtin_sorts[OF this] obtain out ks where out:
    "sorted_builtin to_sort_key resources = Inr out" "mset out = mset resources"
    "map to_sort_key out = map Inr ks" "sorted ks" by blast
  from out(3) have "map spec_sort_key out = map Some ks" by (rule map_to_sort_key_spec)
  with out have "sorted_list ?s = (Inr out, ?s) \<and> mset out = mset resources
      \<and> map to_sort_key out = map Inr ks \<and> map spec_sort_key out = map Some ks \<and> sorted ks"
    by (simp add: sorted_list_def vals)
  with a have "\<exists>s out ks.
            add_all resources ResourceState_init = (replicate (length resources) (Inr ()), s)
          \<and> sorted_list s = (Inr out, s)
          \<and> mset out = mset resources
          \<and> map to_sort_key out = map Inr ks
          \<and> map spec_sort_key out = map Some ks
          \<and> sorted ks"
    by blast
  then show ?thesis using SortKey_le by blast
qed

theorem add_all_distinct_sorted_list_witness:
  "map resource_key distinct_resources =
     map Inr [(''entity'', ''user_id''), (''user'', ''bob''), (''source'', ''transactions''),
              (''user'', ''alice'')]
   \<and> distinct [(''entity'', ''user_id''), (''user'', ''bob''), (''source'', ''transactions''),
               (''user'', ''alice'')]
   \<and> (\<exists>s out ks.
         add_all distinct_resources ResourceState_init = ([Inr (), Inr (), Inr (), Inr ()], s)
       \<and> sorted_list s = (Inr out, s)
       \<and> mset out = mset distinct_resources
       \<and> map spec_sort_key out = map Some ks
       \<and> sorted ks)
   \<and> fst (sorted_list (registry_of distinct_resources)) =
       Inr [example_user ''alice'', example_user ''bob'', RSource (example_source ''v1''),
            example_entity]"
proof -
  have h1: "map resource_key distinct_resources =
     map Inr [(''entity'', ''user_id''), (''user'', ''bob''), (''source'', ''transactions''),
              (''user'', ''alice'')]"
    by (simp add: distinct_resources_def example_defs)
  have h2: "distinct [(''entity'', ''user_id''), (''user'', ''bob''),
      (''source'', ''transactions''), (''user'', ''alice'')]"
    by simp
  have len: "replicate (length distinct_resources) (Inr ()) =
      ([Inr (), Inr (), Inr (), Inr ()] :: (error + unit) list)"
    by (simp add: distinct_resources_def)
  from add_all_distinct_sorted_list[OF h1 h2]
  have "\<exists>s out ks.
         add_all distinct_resources ResourceState_init = ([Inr (), Inr (), Inr (), Inr ()], s)
       \<and> sorted_list s = (Inr out, s)
       \<and> mset out = mset distinct_resources
       \<and> map spec_sort_key out = map Some ks
       \<and> sorted ks"
    unfolding len by blast
  moreover have "fst (sorted_list (registry_of distinct_resources)) =
       Inr [example_user ''alice'', example_user ''bob'', RSource (example_source ''v1''),
            example_entity]"
    by (simp add: distinct_resources_def example_defs sorted_list_def sorted_builtin_def
          to_sort_key_def resource_order_def dict_values_def)
  ultimately show ?thesis using h1 h2 by blast
qed

section \<open>Applying the registry\<close>

text \<open>Before the stub is called, nothing but a missing attribute can go wrong.\<close>

lemma create_request_error: "create_request r = Inl e \<Longrightarrow> \<exists>c a. e = AttributeError c a"
proof (cases r)
  case (RProvider p)
  assume "create_request r = Inl e"
  with RProvider show ?thesis
    by (cases "provider_config p") (auto split: sum.splits)
next
  case (RSource s)
  assume "create_request r = Inl e"
  with RSource show ?thesis
    by (cases "source_definition s") (auto split: sum.splits)
qed auto

lemma create_request_name: "create_request r = Inr call \<Longrightarrow> \<exists>name. resource_name r = Inr name"
  by (cases r) auto

text \<open>
  The resources for which \<open>_create\<close> reaches the stub: a user, a provider with a Snowflake
  configuration, and a source defined by primary data or by an SQL transformation.
\<close>

lemma create_request_defined_iff:
  "(\<exists>call. create_request r = Inr call) \<longleftrightarrow>
     (case r of
        RUser u \<Rightarrow> True
      | RProvider p \<Rightarrow> (case provider_config p of Snowflake c \<Rightarrow> True | _ \<Rightarrow> False)
      | RSource s \<Rightarrow> (case source_definition s of DefTransformation \<Rightarrow> False | _ \<Rightarrow> True)
      | _ \<Rightarrow> False)"
  by (cases r) (auto split: Config.splits SourceDefinition.splits sum.splits)

text \<open>Whatever happens, the calls made are those of a prefix of the list, in its order.\<close>

lemma create_loop_calls_prefix:
  "\<exists>n \<le> length rs.
     map Inr (calls (create_loop stub rs made out)) = map Inr made @ map create_request (take n rs)"
proof (induction rs arbitrary: made out)
  case Nil
  then show ?case by simp
next
  case (Cons r rs)
  show ?case
  proof (cases "resource_name r")
    case (Inl e)
    then have "calls (create_loop stub (r # rs) made out) = made" by simp
    then show ?thesis by (intro exI[of _ 0]) simp
  next
    case (Inr name)
    show ?thesis
    proof (cases "create_request r")
      case (Inl e)
      then obtain c a where "e = AttributeError c a" using create_request_error by blast
      with Inl Inr have "calls (create_loop stub (r # rs) made out) = made"
        by (simp add: resource_create_def)
      then show ?thesis by (intro exI[of _ 0]) simp
    next
      case req: (Inr call)
      let ?made = "made @ [call]"
      have step: "\<exists>n \<le> length (r # rs).
          map Inr cs = map Inr made @ map create_request (take n (r # rs))"
        if "\<exists>n \<le> length rs. map Inr cs = map Inr ?made @ map create_request (take n rs)"
        for cs
      proof -
        from that obtain n where "n \<le> length rs"
          "map Inr cs = map Inr ?made @ map create_request (take n rs)" by blast
        then show ?thesis using req by (intro exI[of _ "Suc n"]) simp
      qed
      show ?thesis
      proof (cases "stub made call")
        case None
        then have eq: "create_loop stub (r # rs) made out =
            create_loop stub rs ?made (out @ [''Creating '' @ '' '' @ name])"
          using Inr req by (simp add: resource_create_def)
        show ?thesis unfolding eq by (rule step) (rule Cons.IH)
      next
        case (Some e)
        show ?thesis
        proof (cases "\<exists>code. e = InactiveRpcError code")
          case True
          then obtain code where "e = InactiveRpcError code" ..
          then have eq: "create_loop stub (r # rs) made out =
              create_loop stub rs ?made
                (out @ [''Creating '' @ '' '' @ name] @ [name @ '' '' @ '' already exists.''])"
            using Inr req Some by (simp add: resource_create_def)
          show ?thesis unfolding eq by (rule step) (rule Cons.IH)
        next
          case False
          then have "calls (create_loop stub (r # rs) made out) = ?made"
            using Inr req Some by (cases e) (simp_all add: resource_create_def)
          then show ?thesis using req by (intro exI[of _ 1]) simp
        qed
      qed
    qed
  qed
qed

text \<open>
  Where every resource reaches the stub and the stub accepts each call or answers that the
  resource already exists, the loop runs to its end and calls the stub once for each
  resource.
\<close>

lemma create_loop_complete:
  assumes "\<forall>made call. stub made call = None
             \<or> stub made call = Some (InactiveRpcError ALREADY_EXISTS)"
  shows "\<forall>r \<in> set rs. \<exists>call. create_request r = Inr call \<Longrightarrow>
     raised (create_loop stub rs made out) = None
     \<and> map Inr (calls (create_loop stub rs made out)) = map Inr made @ map create_request rs"
proof (induction rs arbitrary: made out)
  case Nil
  then show ?case by simp
next
  case (Cons r rs)
  from Cons.prems obtain call where req: "create_request r = Inr call" by auto
  then obtain name where name: "resource_name r = Inr name" using create_request_name by blast
  from Cons.prems have rest: "\<forall>r \<in> set rs. \<exists>call. create_request r = Inr call" by simp
  from assms have "stub made call = None
      \<or> stub made call = Some (InactiveRpcError ALREADY_EXISTS)"
    by blast
  then show ?case
  proof
    assume "stub made call = None"
    then have eq: "create_loop stub (r # rs) made out =
        create_loop stub rs (made @ [call]) (out @ [''Creating '' @ '' '' @ name])"
      using name req by (simp add: resource_create_def)
    show ?thesis unfolding eq using Cons.IH[OF rest] req by simp
  next
    assume "stub made call = Some (InactiveRpcError ALREADY_EXISTS)"
    then have eq: "create_loop stub (r # rs) made out =
        create_loop stub rs (made @ [call])
          (out @ [''Creating '' @ '' '' @ name] @ [name @ '' '' @ '' already exists.''])"
      using name req by (simp add: resource_create_def)
    show ?thesis unfolding eq using Cons.IH[OF rest] req by simp
  qed
qed

text \<open>
  An exception of the stub that is not the inactive-RPC error leaves the loop at once: the
  call that raised it is the last one made.
\<close>

lemma create_loop_abort:
  assumes "resource_name r = Inr name" and "create_request r = Inr call"
    and "stub made call = Some e" and "\<forall>code. e \<noteq> InactiveRpcError code"
  shows "create_loop stub (r # rs) made out =
           \<lparr> raised = Some e, calls = made @ [call],
             printed = out @ [''Creating '' @ '' '' @ name] \<rparr>"
  using assms by (cases e) (simp_all add: resource_create_def)

text \<open>
  Claim C4 holds for the order and fails for the number of calls. The users \<open>bob\<close> and
  \<open>alice\<close> and the entity \<open>user_id\<close> are registered in that order and applied to a stub
  that accepts every call. \<open>create_all\<close> visits them in insertion order, \<open>bob\<close> before
  \<open>alice\<close>, where \<open>sorted_list\<close> has \<open>alice\<close> first. It does not make one call for each
  registered resource: after the two calls for the users it raises \<open>AttributeError\<close>,
  because \<open>Entity\<close> has no \<open>_create\<close>, and the stub receives no call for the entity.
\<close>

theorem create_all_users_then_entity:
  "create_list (registry_of insertion_resources) =
     [example_user ''bob'', example_user ''alice'', example_entity]
   \<and> fst (sorted_list (registry_of insertion_resources)) =
       Inr [example_user ''alice'', example_user ''bob'', example_entity]
   \<and> fst (create_all accepting_stub (registry_of insertion_resources)) =
       \<lparr> raised = Some (AttributeError ''Entity'' ''_create''),
         calls = [CreateUser \<lparr> pb_user_name = ''bob'' \<rparr>,
                  CreateUser \<lparr> pb_user_name = ''alice'' \<rparr>],
         printed = [''Creating  bob'', ''Creating  alice'', ''Creating  user_id''] \<rparr>"
proof -
  have "create_list (registry_of insertion_resources) =
      [example_user ''bob'', example_user ''alice'', example_entity]"
    by (simp add: insertion_resources_def example_defs)
  moreover have "fst (sorted_list (registry_of insertion_resources)) =
      Inr [example_user ''alice'', example_user ''bob'', example_entity]"
    by (simp add: insertion_resources_def example_defs sorted_list_def sorted_builtin_def
          to_sort_key_def resource_order_def dict_values_def)
  moreover have "fst (create_all accepting_stub (registry_of insertion_resources)) =
       \<lparr> raised = Some (AttributeError ''Entity'' ''_create''),
         calls = [CreateUser \<lparr> pb_user_name = ''bob'' \<rparr>,
                  CreateUser \<lparr> pb_user_name = ''alice'' \<rparr>],
         printed = [''Creating  bob'', ''Creating  alice'', ''Creating  user_id''] \<rparr>"
    by (simp add: insertion_resources_def example_defs accepting_stub_def)
  ultimately show ?thesis by blast
qed

text \<open>
  Claim C5 fails on the code. A registry holding the entity \<open>user_id\<close> is applied to a
  stub that answers every call with the status \<open>ALREADY_EXISTS\<close>: \<open>create_all\<close> does not
  complete, it raises \<open>AttributeError\<close> to its caller, because \<open>Entity\<close> has no \<open>_create\<close>,
  and the stub receives no call for the registered entity.
\<close>

theorem create_all_entity_already_exists:
  "create_list (registry_of [example_entity]) = [example_entity]
   \<and> fst (create_all already_exists_stub (registry_of [example_entity])) =
       \<lparr> raised = Some (AttributeError ''Entity'' ''_create''),
         calls = [],
         printed = [''Creating  user_id''] \<rparr>"
  by (simp add: example_defs)

text \<open>
  Claim C6 fails on the code. Five users are registered and the third call of the stub
  fails with the status \<open>UNAVAILABLE\<close>, which is not "already exists": \<open>create_all\<close>
  catches the error, prints that \<open>u3\<close> already exists, goes on to the fourth and fifth
  users and returns without raising.
\<close>

theorem create_all_third_unavailable:
  "create_list (registry_of five_users) = five_users
   \<and> fst (create_all third_unavailable_stub (registry_of five_users)) =
       \<lparr> raised = None,
         calls = [CreateUser \<lparr> pb_user_name = ''u1'' \<rparr>, CreateUser \<lparr> pb_user_name = ''u2'' \<rparr>,
                  CreateUser \<lparr> pb_user_name = ''u3'' \<rparr>, CreateUser \<lparr> pb_user_name = ''u4'' \<rparr>,
                  CreateUser \<lparr> pb_user_name = ''u5'' \<rparr>],
         printed = [''Creating  u1'', ''Creating  u2'', ''Creating  u3'',
                    ''u3  already exists.'', ''Creating  u4'', ''Creating  u5''] \<rparr>"
  by (simp add: five_users_def example_defs)

text \<open>
  Claim C7 holds for the listing and fails for the apply phase. The user \<open>alice\<close>, the
  provider \<open>pg\<close> with its Postgres configuration and the entity \<open>user_id\<close> are all added,
  and \<open>sorted_list\<close> returns them in that order. Whatever the stub does, \<open>create_all\<close>
  then makes the call \<open>CreateUser\<close> and no other, and raises: with a stub that accepts
  every call it raises \<open>AttributeError\<close> because \<open>PostgresConfig\<close> has no \<open>type\<close>, so that
  \<open>CreateProvider\<close> is never called and the entity is never reached.
\<close>

theorem scenario_user_provider_entity:
  "add_all [example_user ''alice'', example_provider function description team, example_entity]
       ResourceState_init =
     ([Inr (), Inr (), Inr ()],
      registry_of [example_user ''alice'', example_provider function description team,
                   example_entity])
   \<and> fst (sorted_list (registry_of [example_user ''alice'',
            example_provider function description team, example_entity])) =
       Inr [example_user ''alice'', example_provider function description team, example_entity]
   \<and> calls (fst (create_all stub (registry_of [example_user ''alice'',
            example_provider function description team, example_entity]))) =
       [CreateUser \<lparr> pb_user_name = ''alice'' \<rparr>]
   \<and> raised (fst (create_all stub (registry_of [example_user ''alice'',
            example_provider function description team, example_entity]))) \<noteq> None
   \<and> fst (create_all accepting_stub (registry_of [example_user ''alice'',
            example_provider function description team, example_entity])) =
       \<lparr> raised = Some (AttributeError ''PostgresConfig'' ''type''),
         calls = [CreateUser \<lparr> pb_user_name = ''alice'' \<rparr>],
         printed = [''Creating  alice'', ''Creating  pg''] \<rparr>"
proof -
  let ?rs = "[example_user ''alice'', example_provider function description team,
              example_entity]"
  have "add_all ?rs ResourceState_init = ([Inr (), Inr (), Inr ()], registry_of ?rs)"
    by (simp add: example_defs)
  moreover have "fst (sorted_list (registry_of ?rs)) = Inr ?rs"
    by (simp add: example_defs sorted_list_def sorted_builtin_def
          to_sort_key_def resource_order_def dict_values_def)
  moreover have "calls (fst (create_all stub (registry_of ?rs))) =
        [CreateUser \<lparr> pb_user_name = ''alice'' \<rparr>]
      \<and> raised (fst (create_all stub (registry_of ?rs))) \<noteq> None"
  proof (cases "stub [] (CreateUser \<lparr> pb_user_name = ''alice'' \<rparr>)")
    case None
    then show ?thesis by (simp add: example_defs)
  next
    case (Some e)
    then show ?thesis by (cases e) (simp_all add: example_defs)
  qed
  moreover have "fst (create_all accepting_stub (registry_of ?rs)) =
       \<lparr> raised = Some (AttributeError ''PostgresConfig'' ''type''),
         calls = [CreateUser \<lparr> pb_user_name = ''alice'' \<rparr>],
         printed = [''Creating  alice'', ''Creating  pg''] \<rparr>"
    by (simp add: example_defs accepting_stub_def)
  ultimately show ?thesis by blast
qed

section \<open>The payload of a Snowflake provider\<close>

text \<open>Reading undoes writing: first for one character, then for a string.\<close>

lemma hex_value_hex_digit: "k < 16 \<Longrightarrow> hex_value (hex_digit k) = Some k"
  by (auto simp: hex_value_def hex_digit_def Let_def)

lemma hex4_escape:
  "n < 256 \<Longrightarrow>
     hex4 (hex_digit (n div 4096 mod 16)) (hex_digit (n div 256 mod 16))
          (hex_digit (n div 16 mod 16)) (hex_digit (n mod 16)) = Some n"
  by (simp add: hex4_def hex_value_hex_digit)

lemma read_escape_char:
  assumes "read_string_body after = Some (s, rest)"
  shows "read_string_body (escape_char c @ after) = Some (c # s, rest)"
proof -
  let ?n = "of_char c :: nat"
  have lt: "?n < 256" by simp
  consider (bs) "?n = 92" | (qu) "?n = 34" | (b) "?n = 8" | (f) "?n = 12" | (n) "?n = 10"
    | (r) "?n = 13" | (t) "?n = 9"
    | (plain) "?n \<noteq> 92" "?n \<noteq> 34" "32 \<le> ?n" "?n \<le> 126"
    | (uni) "?n \<noteq> 92" "?n \<noteq> 34" "?n \<noteq> 8" "?n \<noteq> 12" "?n \<noteq> 10" "?n \<noteq> 13" "?n \<noteq> 9"
        "\<not> (32 \<le> ?n \<and> ?n \<le> 126)"
    by linarith
  then show ?thesis
  proof cases
    case bs
    then have "c = CHR 0x5C" by (intro of_char_eqI[where 'a=nat]) simp
    then show ?thesis using assms
      by (simp add: escape_char_def simple_escape_def cons_result_def)
  next
    case qu
    then have "c = CHR 0x22" by (intro of_char_eqI[where 'a=nat]) simp
    then show ?thesis using assms
      by (simp add: escape_char_def simple_escape_def cons_result_def)
  next
    case b
    then have "c = CHR 0x08" by (intro of_char_eqI[where 'a=nat]) simp
    then show ?thesis using assms
      by (simp add: escape_char_def simple_escape_def cons_result_def)
  next
    case f
    then have "c = CHR 0x0C" by (intro of_char_eqI[where 'a=nat]) simp
    then show ?thesis using assms
      by (simp add: escape_char_def simple_escape_def cons_result_def)
  next
    case n
    then have "c = CHR 0x0A" by (intro of_char_eqI[where 'a=nat]) simp
    then show ?thesis using assms
      by (simp add: escape_char_def simple_escape_def cons_result_def)
  next
    case r
    then have "c = CHR 0x0D" by (intro of_char_eqI[where 'a=nat]) simp
    then show ?thesis using assms
      by (simp add: escape_char_def simple_escape_def cons_result_def)
  next
    case t
    then have "c = CHR 0x09" by (intro of_char_eqI[where 'a=nat]) simp
    then show ?thesis using assms
      by (simp add: escape_char_def simple_escape_def cons_result_def)
  next
    case plain
    then have "c \<noteq> CHR 0x22" "c \<noteq> CHR 0x5C" by auto
    moreover from plain have "escape_char c = [c]"
      by (simp add: escape_char_def Let_def)
    ultimately show ?thesis using assms by (simp add: cons_result_def)
  next
    case uni
    then have "escape_char c =
        [CHR 0x5C, CHR ''u'', hex_digit (?n div 4096 mod 16), hex_digit (?n div 256 mod 16),
         hex_digit (?n div 16 mod 16), hex_digit (?n mod 16)]"
      by (simp add: escape_char_def Let_def)
    then show ?thesis using assms hex4_escape[OF lt]
      by (simp add: cons_result_def)
  qed
qed

lemma read_string_body_escape:
  "read_string_body (concat (map escape_char s) @ CHR 0x22 # rest) = Some (s, rest)"
proof (induction s)
  case Nil
  then show ?case by simp
next
  case (Cons c s)
  have "read_string_body (escape_char c @ (concat (map escape_char s) @ CHR 0x22 # rest))
      = Some (c # s, rest)"
    using Cons.IH by (rule read_escape_char)
  then show ?case by simp
qed

lemma read_string_encode:
  "read_string (py_encode_basestring_ascii s @ rest) = Some (s, rest)"
  by (simp add: read_string_def py_encode_basestring_ascii_def read_string_body_escape)

lemma expect_prefix: "expect p (p @ s) = Some s"
  by (simp add: expect_def)

lemma read_item_json_item: "read_item (json_item kv @ rest) = Some (kv, rest)"
proof -
  have "json_item kv @ rest =
      py_encode_basestring_ascii (fst kv) @ ('': '' @ (py_encode_basestring_ascii (snd kv) @ rest))"
    by (simp add: json_item_def)
  then show ?thesis
    using expect_prefix[of "'': ''"]
    by (simp only: read_item_def read_string_encode option.case prod.case prod.collapse)
qed

lemma read_items_json_items:
  "kvs \<noteq> [] \<Longrightarrow> length kvs \<le> n \<Longrightarrow> expect '', '' rest = None \<Longrightarrow>
     read_items n (json_items kvs @ rest) = Some (kvs, rest)"
proof (induction kvs arbitrary: n rule: json_items.induct)
  case 1
  then show ?case by simp
next
  case (2 kv)
  then obtain m where "n = Suc m" by (cases n) auto
  then show ?case using 2 by (simp add: read_item_json_item)
next
  case (3 kv kv' kvs)
  then obtain m where n: "n = Suc m" by (cases n) auto
  have "json_items (kv # kv' # kvs) @ rest =
      json_item kv @ ('', '' @ (json_items (kv' # kvs) @ rest))"
    by simp
  moreover have "read_items m (json_items (kv' # kvs) @ rest) = Some (kv' # kvs, rest)"
    using 3 n by simp
  ultimately show ?case
    using expect_prefix[of "'', ''" "json_items (kv' # kvs) @ rest"]
    by (simp only: n read_items.simps read_item_json_item option.case prod.case)
qed

lemma length_json_item: "Suc 0 \<le> length (json_item kv)"
  by (simp add: json_item_def)

lemma length_json_items: "length kvs \<le> length (json_items kvs)"
proof (induction kvs rule: json_items.induct)
  case (2 kv)
  then show ?case using length_json_item[of kv] by simp
next
  case (3 kv kv' kvs)
  then show ?case by simp
qed simp

lemma json_items_quote: "kvs \<noteq> [] \<Longrightarrow> \<exists>t. json_items kvs = CHR 0x22 # t"
  by (induction kvs rule: json_items.induct)
     (simp_all add: json_item_def py_encode_basestring_ascii_def)

lemma json_loads_dumps: "json_loads (json_dumps kvs) = Some kvs"
proof (cases "kvs = []")
  case True
  then show ?thesis by (simp add: json_loads_def json_dumps_def expect_def)
next
  case False
  have e: "expect ''{'' (json_dumps kvs) = Some (json_items kvs @ ''}'')"
    by (simp add: json_dumps_def expect_def)
  from False obtain t where "json_items kvs = CHR 0x22 # t"
    using json_items_quote by blast
  then have ne: "json_items kvs @ ''}'' \<noteq> ''}''" by simp
  have "length kvs \<le> length (json_dumps kvs)"
    using length_json_items[of kvs] by (simp add: json_dumps_def)
  then have "read_items (length (json_dumps kvs)) (json_items kvs @ ''}'') = Some (kvs, ''}'')"
    using False by (intro read_items_json_items) (simp_all add: expect_def)
  then show ?thesis using e ne by (simp add: json_loads_def)
qed

lemma utf8_decode_one:
  "unat b < 128 \<Longrightarrow>
     utf8_decode (b # bs) =
       (case utf8_decode bs of None \<Rightarrow> None | Some s \<Rightarrow> Some (char_of (unat b) # s))"
  by (cases bs) simp_all

lemma two_byte_bounds:
  assumes "\<not> (n::nat) < 128" "n < 256"
  shows "194 \<le> 192 + n div 64 \<and> 192 + n div 64 < 196"
  using assms by arith

lemma unat_lead_byte:
  "(n::nat) < 256 \<Longrightarrow> unat (word_of_nat (192 + n div 64) :: 8 word) = 192 + n div 64"
  by (simp only: unat_of_nat) simp

lemma utf8_decode_two:
  "194 \<le> unat b \<Longrightarrow> unat b < 196 \<Longrightarrow> 128 \<le> unat b' \<Longrightarrow> unat b' < 192 \<Longrightarrow>
     utf8_decode (b # b' # bs) =
       (case utf8_decode bs of
          None \<Rightarrow> None
        | Some s \<Rightarrow> Some (char_of ((unat b - 192) * 64 + (unat b' - 128)) # s))"
  by simp

lemma utf8_decode_char:
  assumes bs: "utf8_decode bs = Some s"
  shows "utf8_decode (utf8_char c @ bs) = Some (c # s)"
proof (cases "(of_char c :: nat) < 128")
  case True
  then have "unat (word_of_nat (of_char c) :: 8 word) = of_char c"
    by (simp add: unat_of_nat)
  then show ?thesis using True bs
    by (simp add: utf8_char_def utf8_decode_one)
next
  case False
  let ?n = "of_char c :: nat"
  let ?b1 = "word_of_nat (192 + ?n div 64) :: 8 word"
  let ?b2 = "word_of_nat (128 + ?n mod 64) :: 8 word"
  have lt: "?n < 256" by simp
  have a: "unat ?b1 = 192 + ?n div 64"
    using lt by (rule unat_lead_byte)
  have b: "unat ?b2 = 128 + ?n mod 64"
    by (simp only: unat_of_nat) simp
  have r: "194 \<le> 192 + ?n div 64 \<and> 192 + ?n div 64 < 196"
    using False lt by (rule two_byte_bounds)
  have enc: "utf8_char c = [?b1, ?b2]"
    using False by (simp only: utf8_char_def Let_def if_False)
  have d: "utf8_decode (?b1 # ?b2 # bs) =
      (case utf8_decode bs of
         None \<Rightarrow> None
       | Some s \<Rightarrow> Some (char_of ((unat ?b1 - 192) * 64 + (unat ?b2 - 128)) # s))"
  proof (rule utf8_decode_two)
    show "194 \<le> unat ?b1" unfolding a using r by blast
    show "unat ?b1 < 196" unfolding a using r by blast
    show "128 \<le> unat ?b2" unfolding b by simp
    show "unat ?b2 < 192" unfolding b by simp
  qed
  have val: "char_of ((unat ?b1 - 192) * 64 + (unat ?b2 - 128)) = c"
    unfolding a b by simp
  show ?thesis
    unfolding enc by (simp only: append_Cons append_Nil d bs option.case val)
qed

lemma utf8_decode_encode: "utf8_decode (utf8_encode s) = Some s"
proof (induction s)
  case Nil
  then show ?case by (simp add: utf8_encode_def)
next
  case (Cons c s)
  then show ?case using utf8_decode_char[of "utf8_encode s" s c]
    by (simp add: utf8_encode_def)
qed

text \<open>
  Claim C8. For every Snowflake configuration, the bytes that \<open>serialize\<close> returns are
  the UTF-8 encoding of a flat JSON object: decoding and reading them gives back the five
  pairs Username, Password, Organization, Account and Database with the values of the
  configuration, in that order, and nothing else. \<open>Provider._create\<close> puts these bytes
  into the field \<open>serialized_config\<close> of the \<open>Provider\<close> message it sends. A Redis or
  Postgres configuration has no \<open>serialize\<close> and so no payload.
\<close>

theorem snowflake_payload:
  "Option.bind (utf8_decode (SnowflakeConfig_serialize c)) json_loads =
     Some [(''Username'', snowflake_username c), (''Password'', snowflake_password c),
           (''Organization'', snowflake_organization c), (''Account'', snowflake_account c),
           (''Database'', snowflake_database c)]
   \<and> config_serialize (Snowflake c) = Inr (SnowflakeConfig_serialize c)
   \<and> create_request (RProvider \<lparr> provider_name = name, provider_function = function,
          provider_config = Snowflake c, provider_description = description,
          provider_team = team \<rparr>) =
       Inr (CreateProvider \<lparr> pb_provider_name = name, pb_provider_description = description,
          pb_provider_type = ''SNOWFLAKE_OFFLINE'', pb_provider_software = ''Snowflake'',
          pb_provider_team = team,
          pb_provider_serialized_config = SnowflakeConfig_serialize c \<rparr>)
   \<and> config_serialize (Redis r) = Inl (AttributeError ''RedisConfig'' ''serialize'')
   \<and> config_serialize (Postgres p) = Inl (AttributeError ''PostgresConfig'' ''serialize'')"
proof -
  have "Option.bind (utf8_decode (SnowflakeConfig_serialize c)) json_loads =
      Some (snowflake_fields c)"
    by (simp add: SnowflakeConfig_serialize_def utf8_decode_encode json_loads_dumps)
  then show ?thesis by (simp add: snowflake_fields_def)
qed

theorem snowflake_payload_witness:
  \<open>json_dumps (snowflake_fields example_snowflake) =
     ''{"Username": "svc", "Password": "p'' @ [CHR 0x5C] @ ''"w", "Organization": "org", ''
       @ ''"Account": "a'' @ [CHR 0x5C] @ ''u00e9", "Database": "db"}''
   \<and> SnowflakeConfig_serialize example_snowflake =
       map (\<lambda>c. word_of_nat (of_char c)) (json_dumps (snowflake_fields example_snowflake))
   \<and> Option.bind (utf8_decode (SnowflakeConfig_serialize example_snowflake)) json_loads =
       Some [(''Username'', ''svc''), (''Password'', [CHR ''p'', CHR 0x22, CHR ''w'']),
             (''Organization'', ''org''), (''Account'', [CHR ''a'', CHR 0xE9]),
             (''Database'', ''db'')]\<close>
proof -
  have t: \<open>json_dumps (snowflake_fields example_snowflake) =
     ''{"Username": "svc", "Password": "p'' @ [CHR 0x5C] @ ''"w", "Organization": "org", ''
       @ ''"Account": "a'' @ [CHR 0x5C] @ ''u00e9", "Database": "db"}''\<close>
    by code_simp
  have "SnowflakeConfig_serialize example_snowflake =
       map (\<lambda>c. word_of_nat (of_char c)) (json_dumps (snowflake_fields example_snowflake))"
    unfolding SnowflakeConfig_serialize_def t by (simp add: utf8_encode_def utf8_char_def)
  moreover have "Option.bind (utf8_decode (SnowflakeConfig_serialize example_snowflake)) json_loads =
       Some [(''Username'', ''svc''), (''Password'', [CHR ''p'', CHR 0x22, CHR ''w'']),
             (''Organization'', ''org''), (''Account'', [CHR ''a'', CHR 0xE9]),
             (''Database'', ''db'')]"
    using snowflake_payload[of example_snowflake] by (simp add: example_snowflake_def)
  ultimately show ?thesis using t by blast
qed

end
